theory Spec2Isabelle
  imports Main "HOL-Library.Word" "HOL-Library.Finite_Map" "HOL-Library.Char_ord"
    "HOL-Library.List_Lexorder"
begin

unbundle bit_operations_syntax

section \<open>Request construction (package rrr)\<close>

subsection \<open>SHA-1 and hexadecimal encoding, as used by \<open>NewRequest\<close>\<close>

text \<open>
  \<open>NewRequest\<close> calls Go's \<open>crypto/sha1.Sum\<close> and \<open>encoding/hex.EncodeToString\<close>.
  Both are library functions; they are written out here after FIPS 180-4 so that the
  fingerprint of a request can be computed. A Go string is a sequence of bytes; a
  \<open>string\<close> of HOL is a list of 8-bit characters, read as those bytes.
\<close>

type_synonym byte = "8 word"
type_synonym u32 = "32 word"
type_synonym sha1_state = "u32 \<times> u32 \<times> u32 \<times> u32 \<times> u32"

definition bytes_of :: "string \<Rightarrow> byte list" where
  "bytes_of s = map of_char s"

definition rotl32 :: "nat \<Rightarrow> u32 \<Rightarrow> u32" where
  "rotl32 n x = push_bit n x OR drop_bit (32 - n) x"

definition be64 :: "nat \<Rightarrow> byte list" where
  "be64 n = map (\<lambda>i. ucast (drop_bit (8 * (7 - i)) (of_nat n :: 64 word))) [0, 1, 2, 3, 4, 5, 6, 7]"

definition sha1_pad :: "byte list \<Rightarrow> byte list" where
  "sha1_pad m =
     m @ [0x80] @ replicate ((119 - length m mod 64) mod 64) 0 @ be64 (8 * length m)"

fun be_words :: "byte list \<Rightarrow> u32 list" where
  "be_words (a # b # c # d # bs) =
     (push_bit 24 (ucast a) OR push_bit 16 (ucast b) OR push_bit 8 (ucast c) OR ucast d)
       # be_words bs"
| "be_words _ = []"

text \<open>The message schedule: each further word is computed from the sixteen before it.\<close>

fun next_w :: "u32 list \<Rightarrow> u32" where
  "next_w (w0 # w1 # w2 # w3 # w4 # w5 # w6 # w7 # w8 # w9 # w10 # w11 # w12 # w13 # ws) =
     rotl32 1 (w13 XOR w8 XOR w2 XOR w0)"
| "next_w _ = 0"

fun schedule :: "nat \<Rightarrow> u32 list \<Rightarrow> u32 list" where
  "schedule 0 win = []"
| "schedule (Suc n) win = (let w = next_w win in w # schedule n (tl win @ [w]))"

definition sha1_f :: "nat \<Rightarrow> u32 \<Rightarrow> u32 \<Rightarrow> u32 \<Rightarrow> u32" where
  "sha1_f t b c d =
     (if t < 20 then (b AND c) OR (NOT b AND d)
      else if t < 40 then b XOR c XOR d
      else if t < 60 then (b AND c) OR (b AND d) OR (c AND d)
      else b XOR c XOR d)"

definition sha1_k :: "nat \<Rightarrow> u32" where
  "sha1_k t =
     (if t < 20 then 0x5A827999 else if t < 40 then 0x6ED9EBA1
      else if t < 60 then 0x8F1BBCDC else 0xCA62C1D6)"

fun sha1_rounds :: "nat \<Rightarrow> u32 list \<Rightarrow> sha1_state \<Rightarrow> sha1_state" where
  "sha1_rounds t [] s = s"
| "sha1_rounds t (w # ws) (a, b, c, d, e) =
     sha1_rounds (t + 1) ws
       (rotl32 5 a + sha1_f t b c d + e + w + sha1_k t, a, rotl32 30 b, c, d)"

definition sha1_block :: "sha1_state \<Rightarrow> byte list \<Rightarrow> sha1_state" where
  "sha1_block h blk =
     (case h of (h0, h1, h2, h3, h4) \<Rightarrow>
        (case sha1_rounds 0 (be_words blk @ schedule 64 (be_words blk)) h of
           (a, b, c, d, e) \<Rightarrow> (h0 + a, h1 + b, h2 + c, h3 + d, h4 + e)))"

fun sha1_blocks :: "nat \<Rightarrow> sha1_state \<Rightarrow> byte list \<Rightarrow> sha1_state" where
  "sha1_blocks 0 h bs = h"
| "sha1_blocks (Suc n) h bs = sha1_blocks n (sha1_block h (take 64 bs)) (drop 64 bs)"

definition word_bytes :: "u32 \<Rightarrow> byte list" where
  "word_bytes w = [ucast (drop_bit 24 w), ucast (drop_bit 16 w), ucast (drop_bit 8 w), ucast w]"

definition sha1_init :: sha1_state where
  "sha1_init = (0x67452301, 0xEFCDAB89, 0x98BADCFE, 0x10325476, 0xC3D2E1F0)"

definition sha1_Sum :: "byte list \<Rightarrow> byte list" where
  "sha1_Sum m =
     (case sha1_blocks (length (sha1_pad m) div 64) sha1_init (sha1_pad m) of
        (h0, h1, h2, h3, h4) \<Rightarrow> concat (map word_bytes [h0, h1, h2, h3, h4]))"

definition hex_digit :: "byte \<Rightarrow> char" where
  "hex_digit n = ''0123456789abcdef'' ! unat n"

definition hex_EncodeToString :: "byte list \<Rightarrow> string" where
  "hex_EncodeToString bs = concat (map (\<lambda>b. [hex_digit (drop_bit 4 b), hex_digit (b AND 0x0F)]) bs)"

subsection \<open>\<open>Request\<close> and \<open>NewRequest\<close>\<close>

record MetadataRequestResponseCommit =
  Commit_ID :: string

record MetadataRequestResponseObject =
  Object_ID :: string
  Object_Length :: int
  Object_Offset :: int

record MetadataRequestResponseRepository =
  Repository_ID :: string
  Repository_URL :: string

record MetadataRequestResponseTime =
  Time_Start :: int
  Time_Stop :: int

record MetadataRequestResponse =
  ID :: string
  Commit :: MetadataRequestResponseCommit
  Object :: MetadataRequestResponseObject
  Repository :: MetadataRequestResponseRepository
  Time :: MetadataRequestResponseTime

record Request = MetadataRequestResponse +
  Text :: string

record NewRequestInput =
  CommitID :: string
  Length :: int
  ObjectID :: string
  Offset :: int
  RepoID :: string
  Text_in :: string

datatype rrr_error =
    ErrNewRequestEmptyRepositoryID
  | ErrNewRequestEmptyObjectID
  | ErrNewRequestEmptyCommitID
  | ErrNewRequestEmptyText

text \<open>The zero value \<open>Request{}\<close> of Go: every string empty, every number 0.\<close>

definition Request_zero :: Request where
  "Request_zero =
     \<lparr>ID = '''',
      Commit = \<lparr>Commit_ID = ''''\<rparr>,
      Object = \<lparr>Object_ID = '''', Object_Length = 0, Object_Offset = 0\<rparr>,
      Repository = \<lparr>Repository_ID = '''', Repository_URL = ''''\<rparr>,
      Time = \<lparr>Time_Start = 0, Time_Stop = 0\<rparr>,
      Text = ''''\<rparr>"

text \<open>
  The constant \<open>ResultSeparatorUID\<close> is declared in a file of package \<open>rrr\<close> that is
  not among the sources. Its value is fixed by \<open>TestNewRequest/ValidInput\<close>: \<open>''__''\<close> is
  the separator for which the four test strings hash to the identifier the test expects.
\<close>

definition ResultSeparatorUID :: string where
  "ResultSeparatorUID = ''__''"

fun strings_Join :: "string list \<Rightarrow> string \<Rightarrow> string" where
  "strings_Join [] sep = ''''"
| "strings_Join [x] sep = x"
| "strings_Join (x # y # ys) sep = x @ sep @ strings_Join (y # ys) sep"

text \<open>
  \<open>NewRequest\<close> returns the pair \<open>(Request, error)\<close> of the source; \<open>None\<close> is the nil
  error. The reading of the clock, \<open>TimestampNow()\<close>, is the parameter \<open>now\<close>.
\<close>

definition NewRequest :: "int \<Rightarrow> NewRequestInput \<Rightarrow> Request \<times> rrr_error option" where
  "NewRequest now inp =
     (if RepoID inp = '''' then (Request_zero, Some ErrNewRequestEmptyRepositoryID)
      else if ObjectID inp = '''' then (Request_zero, Some ErrNewRequestEmptyObjectID)
      else if CommitID inp = '''' then (Request_zero, Some ErrNewRequestEmptyCommitID)
      else if Text_in inp = '''' then (Request_zero, Some ErrNewRequestEmptyText)
      else
        (let elements = [RepoID inp, CommitID inp, ObjectID inp, Text_in inp];
             sum = sha1_Sum (bytes_of (strings_Join elements ResultSeparatorUID))
         in (\<lparr>ID = hex_EncodeToString sum,
              Commit = \<lparr>Commit_ID = CommitID inp\<rparr>,
              Object = \<lparr>Object_ID = ObjectID inp, Object_Length = Length inp,
                        Object_Offset = Offset inp\<rparr>,
              Repository = \<lparr>Repository_ID = RepoID inp, Repository_URL = ''''\<rparr>,
              Time = \<lparr>Time_Start = now, Time_Stop = 0\<rparr>,
              Text = Text_in inp\<rparr>, None)))"

section \<open>The key tracker (package tracker)\<close>

text \<open>
  Modelled from the spec: the file that implements \<open>KeyTracker\<close> (\<open>KeyData\<close>,
  \<open>NewKeyData\<close>, \<open>Get\<close>, \<open>GetKeysDataForCode\<close>, \<open>Update\<close>, \<open>CheckAllComplete\<close>,
  \<open>Restore\<close>) is not among the sources; only its tests and its callers are. The
  definitions of this section follow sections 3 and 4.1 of the specification, with the
  names of codes and errors that the tests of the package use. A Go map is a finite map;
  the lock of the tracker serialises its operations, so each operation is a function from
  the tracker to the new tracker. The clock is the parameter \<open>now\<close>.
\<close>

definition KeyCodeInit :: int where "KeyCodeInit = - 2"
definition KeyCodeError :: int where "KeyCodeError = - 1"
definition KeyCodeIgnore :: int where "KeyCodeIgnore = 0"
definition KeyCodePending :: int where "KeyCodePending = 1"
definition KeyCodeComplete :: int where "KeyCodeComplete = 2"

datatype KeyState =
  KeyStateInit | KeyStateError | KeyStateIgnore | KeyStatePending | KeyStateComplete

datatype tracker_error = ErrKeyUpdateKeyEmpty | ErrKeyCodeInvalid

datatype ScanObjectType =
  ScanObjectTypeCommit | ScanObjectTypeFile | ScanObjectTypeRequestResponse

record KeyData =
  Children :: "(string, bool) fmap"
  Code :: int
  Message :: string
  State :: KeyState
  TimestampFirst :: int
  TimestampLatest :: int

type_synonym KeyDataMap = "(string, KeyData) fmap"

record KeyTracker =
  Keys :: KeyDataMap
  Kind :: ScanObjectType

text \<open>The label of a code; \<open>TestKeyCodeToState\<close> fixes the label of an unknown code.\<close>

definition KeyCodeToState :: "int \<Rightarrow> KeyState" where
  "KeyCodeToState code =
     (if code = KeyCodeComplete then KeyStateComplete
      else if code = KeyCodeIgnore then KeyStateIgnore
      else if code = KeyCodeError then KeyStateError
      else if code = KeyCodePending then KeyStatePending
      else KeyStateInit)"

definition KeyCodeValidate :: "int \<Rightarrow> tracker_error option" where
  "KeyCodeValidate code =
     (if code < KeyCodeInit \<or> KeyCodeComplete < code then Some ErrKeyCodeInvalid else None)"

text \<open>
  A new key: every named child is recorded as not complete, whatever the code. The table
  of \<open>TestKeyTracker_Update/RepeatUpdateComplete\<close> lists the child of a key that is
  created \<open>COMPLETE\<close> as true; the test compares the names of the children only, and
  the specification maps each child of a new key to false, which is what is written here.
\<close>

definition NewKeyData :: "int \<Rightarrow> int \<Rightarrow> string \<Rightarrow> string list \<Rightarrow> KeyData" where
  "NewKeyData now code message child_keys =
     \<lparr>Children = fold (\<lambda>c m. fmupd c False m) child_keys fmempty,
      Code = code, Message = message, State = KeyCodeToState code,
      TimestampFirst = now, TimestampLatest = now\<rparr>"

text \<open>
  Merging the child keys of an update: a child named by an update with code
  \<open>COMPLETE\<close> becomes \<open>True\<close>; otherwise a new child is inserted as \<open>False\<close> and a
  child that is present keeps its flag.
\<close>

definition merge_child :: "int \<Rightarrow> string \<Rightarrow> (string, bool) fmap \<Rightarrow> (string, bool) fmap" where
  "merge_child new_code c m =
     (if new_code = KeyCodeComplete then fmupd c True m
      else if c |\<in>| fmdom m then m else fmupd c False m)"

definition merge_children :: "int \<Rightarrow> string list \<Rightarrow> (string, bool) fmap \<Rightarrow> (string, bool) fmap" where
  "merge_children new_code child_keys ch = fold (merge_child new_code) child_keys ch"

definition has_incomplete :: "(string, bool) fmap \<Rightarrow> bool" where
  "has_incomplete ch = (\<not> fmpred (\<lambda>c done. done) ch)"

text \<open>
  The update of a key that exists, step 3 of the update semantics: the children are
  merged; a key that is \<open>COMPLETE\<close> keeps its code and message; a \<open>COMPLETE\<close> update
  of a key with an incomplete child gives \<open>PENDING\<close>; otherwise the new code is adopted.
  The result is the effective code and the new data. The tests of the package also send
  a lower code to a key that is not \<open>COMPLETE\<close> (\<open>TestKeyTracker_GetCounts/Mixed_1\<close>);
  for that case the specification has the last rule only, which is the one written here.
  No property below sends a lower code to a key that is not \<open>COMPLETE\<close>.
\<close>

definition KeyData_update :: "int \<Rightarrow> KeyData \<Rightarrow> int \<Rightarrow> string \<Rightarrow> string list \<Rightarrow> int \<times> KeyData" where
  "KeyData_update now kd new_code message child_keys =
     (let ch = merge_children new_code child_keys (Children kd) in
      if Code kd = KeyCodeComplete then (KeyCodeComplete, kd\<lparr>Children := ch\<rparr>)
      else if new_code = KeyCodeComplete \<and> has_incomplete ch then
        (KeyCodePending,
         kd\<lparr>Children := ch, Code := KeyCodePending, Message := message,
            State := KeyCodeToState KeyCodePending, TimestampLatest := now\<rparr>)
      else
        (new_code,
         kd\<lparr>Children := ch, Code := new_code, Message := message,
            State := KeyCodeToState new_code, TimestampLatest := now\<rparr>))"

definition Update ::
  "int \<Rightarrow> KeyTracker \<Rightarrow> string \<Rightarrow> int \<Rightarrow> string \<Rightarrow> string list
     \<Rightarrow> (tracker_error + int) \<times> KeyTracker" where
  "Update now kt key new_code message child_keys =
     (if key = [] then (Inl ErrKeyUpdateKeyEmpty, kt)
      else if KeyCodeValidate new_code \<noteq> None then (Inl ErrKeyCodeInvalid, kt)
      else
        (case fmlookup (Keys kt) key of
           None \<Rightarrow>
             (Inr new_code,
              kt\<lparr>Keys := fmupd key (NewKeyData now new_code message child_keys) (Keys kt)\<rparr>)
         | Some kd \<Rightarrow>
             (case KeyData_update now kd new_code message child_keys of
                (code, kd') \<Rightarrow> (Inr code, kt\<lparr>Keys := fmupd key kd' (Keys kt)\<rparr>))))"

definition Get :: "KeyTracker \<Rightarrow> string \<Rightarrow> KeyData option" where
  "Get kt key = fmlookup (Keys kt) key"

definition GetKeysDataForCode :: "KeyTracker \<Rightarrow> int \<Rightarrow> tracker_error + KeyDataMap" where
  "GetKeysDataForCode kt code =
     (if KeyCodeValidate code \<noteq> None then Inl ErrKeyCodeInvalid
      else Inr (fmfilter (\<lambda>k. case fmlookup (Keys kt) k of
                                 None \<Rightarrow> False | Some d \<Rightarrow> Code d = code) (Keys kt)))"

definition CheckAllComplete :: "KeyTracker \<Rightarrow> bool" where
  "CheckAllComplete kt =
     fmpred (\<lambda>k d. Code d = KeyCodeComplete \<or> Code d = KeyCodeError) (Keys kt)"

definition Restore :: "KeyTracker \<Rightarrow> KeyDataMap \<Rightarrow> KeyTracker" where
  "Restore kt snapshot = kt\<lparr>Keys := snapshot\<rparr>"

definition NewKeyTracker :: "ScanObjectType \<Rightarrow> KeyTracker" where
  "NewKeyTracker kind = \<lparr>Keys = fmempty, Kind = kind\<rparr>"

text \<open>
  Applying a list of updates \<open>(code, message, children)\<close> to one key in turn, as the
  tests of \<open>Update\<close> do; the result is the list of returned values and the last tracker.
\<close>

fun Update_all ::
  "int \<Rightarrow> KeyTracker \<Rightarrow> string \<Rightarrow> (int \<times> string \<times> string list) list
     \<Rightarrow> (tracker_error + int) list \<times> KeyTracker" where
  "Update_all now kt key [] = ([], kt)"
| "Update_all now kt key ((c, m, ch) # us) =
     (case Update now kt key c m ch of
        (r, kt') \<Rightarrow> (case Update_all now kt' key us of (rs, kt'') \<Rightarrow> (r # rs, kt'')))"

text \<open>Updates that carry a code only, with an empty message and no children.\<close>

definition updates_of_codes :: "int list \<Rightarrow> (int \<times> string \<times> string list) list" where
  "updates_of_codes cs = map (\<lambda>c. (c, [], [])) cs"

section \<open>The scanner (package scanner)\<close>

subsection \<open>Errors\<close>

text \<open>
  The error values of the package, the errors of other packages by their message, and
  \<open>errors.Wrap(cause, message)\<close> of \<open>github.com/pkg/errors\<close>.
\<close>

datatype scanner_error =
    ErrCheckpointDataUnmarshalFailed
  | ErrCheckpointDeleteFailed
  | ErrCheckpointFileOpenFailed
  | ErrCheckpointFileReadFailed
  | ErrCheckpointPathLookupFailed
  | ErrScannerRepositoryNil
  | TrackerError tracker_error
  | OtherError string
  | Wrap scanner_error string

definition ErrMsgErrorChannelNil :: string where
  "ErrMsgErrorChannelNil = ''received nil error channel as input''"

definition ErrMsgTrackerUpdateCommit :: "string \<Rightarrow> string" where
  "ErrMsgTrackerUpdateCommit commit = ''failed to update tracker for commit '' @ commit"

subsection \<open>The scanner state and the reconciler\<close>

text \<open>
  A repository handle of go-git, as far as \<open>scanRepository\<close> uses it: what
  \<open>CommitObjects()\<close> gives, either an error or the hashes of the commits the iterator will
  yield.
\<close>

record Repository =
  commit_objects :: "string + string list"

record Scanner =
  Scanner_ID :: string
  URL :: string
  TrackerCommits :: KeyTracker
  TrackerFiles :: KeyTracker
  TrackerRequests :: KeyTracker
  is_scan_complete :: bool
  repository :: "Repository option"

text \<open>
  Go visits the keys of a map once each, in an order it does not specify. The model
  visits them in their sorted order; the proofs about the loops below use only that every
  key is visited exactly once.
\<close>

definition range_keys :: "(string, 'v) fmap \<Rightarrow> string list" where
  "range_keys m = sorted_list_of_fset (fmdom m)"

text \<open>
  The inner loop of \<open>reconcilePending\<close>: the children of a pending key whose flag is
  still false and whose own tracker entry is \<open>COMPLETE\<close>.
\<close>

fun children_complete :: "KeyTracker \<Rightarrow> (string, bool) fmap \<Rightarrow> string list \<Rightarrow> string list" where
  "children_complete tr ch [] = []"
| "children_complete tr ch (c # cs) =
     (if fmlookup ch c = Some True then children_complete tr ch cs
      else
        (case Get tr c of
           None \<Rightarrow> children_complete tr ch cs
         | Some d \<Rightarrow>
             (if Code d = KeyCodeComplete then c # children_complete tr ch cs
              else children_complete tr ch cs)))"

text \<open>
  The outer loop, which the source writes once for files against requests and once for
  commits against files: \<open>pending\<close> is the snapshot \<open>GetKeysDataForCode\<close> returned, \<open>tr\<close> the
  tracker of the children and \<open>kt\<close> the tracker that is updated. \<open>clock k\<close> is the time at
  which the update of key \<open>k\<close> reads the clock.
\<close>

fun reconcile_keys ::
  "(string \<Rightarrow> int) \<Rightarrow> KeyTracker \<Rightarrow> KeyDataMap \<Rightarrow> string list \<Rightarrow> KeyTracker \<Rightarrow> KeyTracker" where
  "reconcile_keys clock tr pending [] kt = kt"
| "reconcile_keys clock tr pending (k # ks) kt =
     (case fmlookup pending k of
        None \<Rightarrow> reconcile_keys clock tr pending ks kt
      | Some kd \<Rightarrow>
          (let complete = children_complete tr (Children kd) (range_keys (Children kd)) in
           reconcile_keys clock tr pending ks
             (if 0 < length complete
              then snd (Update (clock k) kt k KeyCodeComplete [] complete)
              else kt)))"

definition reconcilePending :: "(string \<Rightarrow> int) \<Rightarrow> Scanner \<Rightarrow> Scanner" where
  "reconcilePending clock s =
     (case GetKeysDataForCode (TrackerFiles s) KeyCodePending of
        Inl files_err \<Rightarrow> s
      | Inr pending_files \<Rightarrow>
          (let s1 = s\<lparr>TrackerFiles :=
                  reconcile_keys clock (TrackerRequests s) pending_files
                    (range_keys pending_files) (TrackerFiles s)\<rparr>
           in case GetKeysDataForCode (TrackerCommits s1) KeyCodePending of
                Inl commits_err \<Rightarrow> s1
              | Inr pending_commits \<Rightarrow>
                  s1\<lparr>TrackerCommits :=
                    reconcile_keys clock (TrackerFiles s1) pending_commits
                      (range_keys pending_commits) (TrackerCommits s1)\<rparr>))"

text \<open>
  What one round of the outer loop does to the entry \<open>kd\<close> of a pending key \<open>k\<close>: the
  update of an entry that exists, when some child became complete and the key is one that
  \<open>Update\<close> accepts. The lemmas about \<open>reconcile_keys\<close> are stated with it.
\<close>

definition reconcile_entry :: "int \<Rightarrow> KeyTracker \<Rightarrow> string \<Rightarrow> KeyData \<Rightarrow> KeyData" where
  "reconcile_entry now tr k kd =
     (let complete = children_complete tr (Children kd) (range_keys (Children kd)) in
      if 0 < length complete \<and> k \<noteq> []
      then snd (KeyData_update now kd KeyCodeComplete [] complete)
      else kd)"

subsection \<open>The walk of the repository\<close>

text \<open>
  \<open>scanCommit\<close> marks a commit \<open>INIT\<close> and queues it unless its stored code is past
  \<open>INIT\<close>. The result is the scanner, the commits sent on \<open>chan_commits\<close> and the error.
\<close>

definition scanCommit :: "int \<Rightarrow> Scanner \<Rightarrow> string \<Rightarrow> Scanner \<times> string list \<times> scanner_error option" where
  "scanCommit now s commit =
     (case Update now (TrackerCommits s) commit KeyCodeInit [] [] of
        (Inl init_err, kt) \<Rightarrow>
          (s\<lparr>TrackerCommits := kt\<rparr>, [],
           Some (Wrap (TrackerError init_err) (ErrMsgTrackerUpdateCommit commit)))
      | (Inr update_code, kt) \<Rightarrow>
          (if KeyCodeInit < update_code then (s\<lparr>TrackerCommits := kt\<rparr>, [], None)
           else (s\<lparr>TrackerCommits := kt\<rparr>, [commit], None)))"

text \<open>\<open>commit_iterator.ForEach(s.scanCommit)\<close>: the iteration stops at the first error. The
  result is the scanner, the commits handed to \<open>scanCommit\<close>, the commits queued and the
  error.\<close>

fun ForEach_scanCommit ::
  "int \<Rightarrow> Scanner \<Rightarrow> string list
     \<Rightarrow> Scanner \<times> string list \<times> string list \<times> scanner_error option" where
  "ForEach_scanCommit now s [] = (s, [], [], None)"
| "ForEach_scanCommit now s (c # cs) =
     (case scanCommit now s c of
        (s', sent, Some e) \<Rightarrow> (s', [c], sent, Some e)
      | (s', sent, None) \<Rightarrow>
          (case ForEach_scanCommit now s' cs of
             (s'', walked, sent', e) \<Rightarrow> (s'', c # walked, sent @ sent', e)))"

datatype outcome = Returned | Panicked string

text \<open>
  What a call of \<open>scanRepository\<close> leaves behind: the scanner, the errors sent on
  \<open>errors_out\<close> in order, whether the checkpoint goroutine was started, the commits handed
  to \<open>scanCommit\<close> and those queued on \<open>chan_commits\<close> for \<open>processCommits\<close>, and how the
  call ended. The deferred \<open>close(done)\<close> runs on every path and is left out. The
  goroutine \<open>processCommits\<close> is not part of this model: \<open>commits_queued\<close> is what it
  receives, and \<open>run_scanner\<close> is the scanner without the updates that goroutine makes
  before \<open>wg.Wait()\<close> returns. The value of the panic on a nil channel is the message
  that the logger is given; a logger that is disabled panics with the empty string.
\<close>

record scan_run =
  run_scanner :: Scanner
  errors_sent :: "scanner_error list"
  checkpoint_started :: bool
  commits_walked :: "string list"
  commits_queued :: "string list"
  run_outcome :: outcome

text \<open>
  \<open>s.repository.CommitObjects()\<close>. The method of go-git reads a field of its receiver,
  so that on a nil receiver the Go runtime panics.
\<close>

definition nil_dereference :: string where
  "nil_dereference = ''runtime error: invalid memory address or nil pointer dereference''"

definition CommitObjects :: "Repository option \<Rightarrow> outcome + (string + string list)" where
  "CommitObjects r =
     (case r of None \<Rightarrow> Inl (Panicked nil_dereference) | Some repo \<Rightarrow> Inr (commit_objects repo))"

text \<open>
  \<open>scanRepository\<close>. \<open>errors_out\<close> is \<open>True\<close> for a channel and \<open>False\<close> for nil. The
  statements are those of the source in their order: the panic on a nil channel, the
  report of a nil repository (after which the source goes on), the assignment of
  \<open>s.repository\<close> and \<open>s.URL\<close>, the start of \<open>checkpointScan\<close>, \<open>CommitObjects()\<close>, the
  iteration with \<open>scanCommit\<close>, and the flag \<open>is_scan_complete\<close>.
\<close>

definition scanRepository ::
  "int \<Rightarrow> Scanner \<Rightarrow> string \<Rightarrow> Repository option \<Rightarrow> bool \<Rightarrow> scan_run" where
  "scanRepository now s repo_url repo errors_out =
     (if \<not> errors_out then
        \<lparr>run_scanner = s, errors_sent = [], checkpoint_started = False, commits_walked = [],
         commits_queued = [], run_outcome = Panicked ErrMsgErrorChannelNil\<rparr>
      else
        (let sent = (if repo = None then [ErrScannerRepositoryNil] else []);
             s1 = s\<lparr>repository := repo, URL := repo_url\<rparr>
         in case CommitObjects (repository s1) of
              Inl panic \<Rightarrow>
                \<lparr>run_scanner = s1, errors_sent = sent, checkpoint_started = True,
                 commits_walked = [], commits_queued = [], run_outcome = panic\<rparr>
            | Inr (Inl e) \<Rightarrow>
                \<lparr>run_scanner = s1, errors_sent = sent, checkpoint_started = True,
                 commits_walked = [], commits_queued = [], run_outcome = Returned\<rparr>
            | Inr (Inr commits) \<Rightarrow>
                (case ForEach_scanCommit now s1 commits of
                   (s2, walked, queued, e) \<Rightarrow>
                     \<lparr>run_scanner = s2\<lparr>is_scan_complete := True\<rparr>,
                      errors_sent = sent @
                        (case e of
                           None \<Rightarrow> []
                         | Some err \<Rightarrow>
                             [Wrap err (''failed to iterate through commits in repository ''
                                          @ URL s2)]),
                      checkpoint_started = True,
                      commits_walked = walked,
                      commits_queued = queued, run_outcome = Returned\<rparr>)))"

subsection \<open>The checkpoint store\<close>

record Checkpoint =
  CreatedAt :: int
  TrackerCommitsData :: KeyDataMap
  TrackerFilesData :: KeyDataMap
  TrackerRequestsData :: KeyDataMap

definition CheckpointFileExtension :: string where
  "CheckpointFileExtension = ''.checkpoint''"

text \<open>
  The constant \<open>cfg.WorkDirCheckpoints\<close> is declared in a package that is not among the
  sources; the specification gives the directory of the checkpoints as
  \<open><work_dir>/checkpoints\<close>.
\<close>

definition WorkDirCheckpoints :: string where
  "WorkDirCheckpoints = ''checkpoints''"

text \<open>
  The two functions of package \<open>nogit\<close> that parse a clone URL are not among the
  sources; they are parameters. \<open>Inl\<close> carries the message of the error.
\<close>

record nogit =
  ParseOrgNameFromURL :: "string \<Rightarrow> string + string"
  ParseRepoNameFromURL :: "string \<Rightarrow> string + string"

text \<open>
  The decoders of the standard library, as parameters: \<open>base64.StdEncoding.DecodeString\<close>,
  and \<open>json.Unmarshal\<close> into a zero \<open>Checkpoint\<close>, which gives the struct as the call
  leaves it and the error.
\<close>

record codec =
  base64_DecodeString :: "string \<Rightarrow> string + string"
  json_Unmarshal :: "string \<Rightarrow> Checkpoint \<times> string option"

text \<open>
  The file system: the directories that exist and the contents of the files that exist,
  both by path.
\<close>

record filesystem =
  fs_dirs :: "string fset"
  fs_files :: "(string, string) fmap"

definition parent_dir :: "string \<Rightarrow> string" where
  "parent_dir path = rev (tl (dropWhile (\<lambda>c. c \<noteq> CHR ''/'') (rev path)))"

text \<open>
  \<open>os.OpenFile(path, os.O_CREATE|os.O_RDWR, os.ModePerm)\<close>: a file that exists is
  opened; a file that does not exist is created empty when its directory exists; the call
  does not create directories. The result is the error message or the path of the open
  file, and the file system after the call. The file system of this model has directories
  and files only, each readable and writable: of the errors of the call it has the two of
  a path that is a directory and of a directory that is missing. A path below a regular
  file is reported as a missing directory here, where the operating system says
  \<open>not a directory\<close>.
\<close>

definition os_OpenFile :: "filesystem \<Rightarrow> string \<Rightarrow> (string + string) \<times> filesystem" where
  "os_OpenFile fs path =
     (if path |\<in>| fs_dirs fs then (Inl (''open '' @ path @ '': is a directory''), fs)
      else if path |\<in>| fmdom (fs_files fs) then (Inr path, fs)
      else if parent_dir path |\<in>| fs_dirs fs
        then (Inr path, fs\<lparr>fs_files := fmupd path [] (fs_files fs)\<rparr>)
      else (Inl (''open '' @ path @ '': no such file or directory''), fs))"

definition getCheckpointPath :: "nogit \<Rightarrow> string \<Rightarrow> string \<Rightarrow> string \<Rightarrow> scanner_error + string" where
  "getCheckpointPath ng work_dir repo_url commit_id =
     (if work_dir = [] then Inl (Wrap ErrCheckpointPathLookupFailed ''work_dir is empty'')
      else if repo_url = [] then Inl (Wrap ErrCheckpointPathLookupFailed ''repo_url is empty'')
      else
        (case ParseOrgNameFromURL ng repo_url of
           Inl e \<Rightarrow> Inl (Wrap ErrCheckpointPathLookupFailed e)
         | Inr org_name \<Rightarrow>
             (case ParseRepoNameFromURL ng repo_url of
                Inl e \<Rightarrow> Inl (Wrap ErrCheckpointPathLookupFailed e)
              | Inr repo_name \<Rightarrow>
                  (let name_list =
                         [org_name, repo_name] @ (if commit_id \<noteq> [] then [commit_id] else []);
                       file_name = strings_Join name_list ''_'' @ CheckpointFileExtension
                   in Inr (strings_Join [work_dir, WorkDirCheckpoints, file_name] ''/'')))))"

definition openCheckpointFile ::
  "nogit \<Rightarrow> filesystem \<Rightarrow> string \<Rightarrow> string \<Rightarrow> string \<Rightarrow> (scanner_error + string) \<times> filesystem" where
  "openCheckpointFile ng fs work_dir repo_url commit_id =
     (case getCheckpointPath ng work_dir repo_url commit_id of
        Inl e \<Rightarrow> (Inl e, fs)
      | Inr path \<Rightarrow>
          (case os_OpenFile fs path of
             (Inl e, fs') \<Rightarrow> (Inl (Wrap ErrCheckpointFileOpenFailed e), fs')
           | (Inr file, fs') \<Rightarrow> (Inr file, fs')))"

text \<open>
  \<open>CheckpointGet\<close> returns the pair \<open>(cpoint, e)\<close> of the source and the file system it
  leaves. A file that was just opened is in the file system, so \<open>file.Stat()\<close> and
  \<open>file.Read\<close> succeed on it.
\<close>

definition file_size :: "filesystem \<Rightarrow> string \<Rightarrow> nat" where
  "file_size fs file = (case fmlookup (fs_files fs) file of None \<Rightarrow> 0 | Some d \<Rightarrow> length d)"

definition file_contents :: "filesystem \<Rightarrow> string \<Rightarrow> string" where
  "file_contents fs file = (case fmlookup (fs_files fs) file of None \<Rightarrow> [] | Some d \<Rightarrow> d)"

definition CheckpointGet ::
  "nogit \<Rightarrow> codec \<Rightarrow> filesystem \<Rightarrow> string \<Rightarrow> string \<Rightarrow> string
     \<Rightarrow> (Checkpoint option \<times> scanner_error option) \<times> filesystem" where
  "CheckpointGet ng cd fs work_dir repo_url commit_id =
     (case getCheckpointPath ng work_dir repo_url commit_id of
        Inl e \<Rightarrow> ((None, Some e), fs)
      | Inr file_path \<Rightarrow>
          (case openCheckpointFile ng fs work_dir repo_url commit_id of
             (Inl e, fs') \<Rightarrow> ((None, Some e), fs')
           | (Inr file, fs') \<Rightarrow>
               (if file_size fs' file = 0
                then ((None, Some (Wrap ErrCheckpointFileReadFailed ''file size is 0'')), fs')
                else
                  (case base64_DecodeString cd (file_contents fs' file) of
                     Inl err \<Rightarrow> ((None, Some (OtherError err)), fs')
                   | Inr data_json \<Rightarrow>
                       (case json_Unmarshal cd data_json of
                          (cpoint, Some err) \<Rightarrow>
                            ((Some cpoint,
                              Some (Wrap (OtherError err) ''failed to unmarshal checkpoint data'')),
                             fs')
                        | (cpoint, None) \<Rightarrow> ((Some cpoint, None), fs'))))))"

subsection \<open>Concrete inputs\<close>

text \<open>
  The input of \<open>TestNewRequest/ValidInput\<close>, and one input for each error of
  \<open>NewRequest\<close>.
\<close>

definition test_request_input :: NewRequestInput where
  "test_request_input =
     \<lparr>CommitID = ''test-commit'', Length = 9, ObjectID = ''test-object'', Offset = 0,
      RepoID = ''test-repo'', Text_in = ''test-text''\<rparr>"

text \<open>
  A clone URL parser that answers for \<open>git@github.com:BlackIQ/learn.git\<close>, the URL of the
  scanner tests, decoders that fail on every input, and two file systems: one in which
  only the working directory exists, and one in which its directory of checkpoints exists
  as well.
\<close>

definition test_repo_url :: string where
  "test_repo_url = ''git@github.com:BlackIQ/learn.git''"

definition test_work_dir :: string where
  "test_work_dir = ''/tmp/no-phi-ai/test/pkg/scanner''"

definition test_nogit :: nogit where
  "test_nogit =
     \<lparr>ParseOrgNameFromURL = (\<lambda>url. if url = test_repo_url then Inr ''BlackIQ''
                                    else Inl ''failed to parse''),
      ParseRepoNameFromURL = (\<lambda>url. if url = test_repo_url then Inr ''learn''
                                     else Inl ''failed to parse'')\<rparr>"

definition test_codec :: codec where
  "test_codec =
     \<lparr>base64_DecodeString = (\<lambda>s. Inl ''illegal base64 data''),
      json_Unmarshal = (\<lambda>s. (\<lparr>CreatedAt = 0, TrackerCommitsData = fmempty,
          TrackerFilesData = fmempty, TrackerRequestsData = fmempty\<rparr>,
          Some ''unexpected end of JSON input''))\<rparr>"

definition test_checkpoint_path :: string where
  "test_checkpoint_path = ''/tmp/no-phi-ai/test/pkg/scanner/checkpoints/BlackIQ_learn.checkpoint''"

definition fs_fresh :: filesystem where
  "fs_fresh = \<lparr>fs_dirs = {|test_work_dir|}, fs_files = fmempty\<rparr>"

definition fs_prepared :: filesystem where
  "fs_prepared =
     \<lparr>fs_dirs = {|test_work_dir, ''/tmp/no-phi-ai/test/pkg/scanner/checkpoints''|},
      fs_files = fmempty\<rparr>"

text \<open>A scanner with three empty trackers, as \<open>NewScanner\<close> creates it.\<close>

definition new_scanner :: Scanner where
  "new_scanner =
     \<lparr>Scanner_ID = ''scanner'', URL = [],
      TrackerCommits = NewKeyTracker ScanObjectTypeCommit,
      TrackerFiles = NewKeyTracker ScanObjectTypeFile,
      TrackerRequests = NewKeyTracker ScanObjectTypeRequestResponse,
      is_scan_complete = False, repository = None\<rparr>"

text \<open>The tracker of \<open>TestKeyTracker_Update/Regression\<close> after its first update.\<close>

definition regression_tracker :: KeyTracker where
  "regression_tracker =
     snd (Update 1 (NewKeyTracker ScanObjectTypeFile) ''Regression'' KeyCodeComplete
            ''test message complete'' [])"

text \<open>A file \<open>f\<close> that is \<open>PENDING\<close> with the children \<open>r1\<close> and \<open>r2\<close>.\<close>

definition pending_file_tracker :: KeyTracker where
  "pending_file_tracker =
     snd (Update 1 (NewKeyTracker ScanObjectTypeFile) ''f'' KeyCodePending [] [''r1'', ''r2''])"

text \<open>
  A scanner after the walk, while responses still arrive: the file \<open>f\<close> is \<open>PENDING\<close>
  with the children \<open>r1\<close> and \<open>r2\<close>, both false; the request \<open>r1\<close> is \<open>COMPLETE\<close> and
  \<open>r2\<close> is \<open>PENDING\<close>; the commit \<open>c\<close> is \<open>PENDING\<close> with the child \<open>f\<close>.
\<close>

definition racing_scanner :: Scanner where
  "racing_scanner =
     new_scanner\<lparr>
       TrackerRequests :=
         snd (Update 3
           (snd (Update 2 (NewKeyTracker ScanObjectTypeRequestResponse) ''r1''
              KeyCodeComplete [] []))
           ''r2'' KeyCodePending [] []),
       TrackerFiles := pending_file_tracker,
       TrackerCommits :=
         snd (Update 4 (NewKeyTracker ScanObjectTypeCommit) ''c'' KeyCodePending [] [''f''])\<rparr>"

section \<open>Properties of request construction\<close>

subsection \<open>Evaluating SHA-1\<close>

lemma schedule_numeral:
  "schedule (numeral k) win = next_w win # schedule (pred_numeral k) (tl win @ [next_w win])"
  by (simp add: numeral_eq_Suc Let_def)

lemma schedule_one: "schedule (Suc 0) win = [next_w win]"
  by (simp add: Let_def)

lemma replicate_numeral: "replicate (numeral k) x = x # replicate (pred_numeral k) x"
  by (simp add: numeral_eq_Suc)

text \<open>The digest of the joined test strings, computed by rewriting.\<close>

lemma sha1_test_vector:
  "hex_EncodeToString (sha1_Sum (bytes_of ''test-repo__test-commit__test-object__test-text''))
     = ''0be325f9ba1df76ddfcf60fe972f3b0f06781ac1''"
  by (simp add: bytes_of_def sha1_pad_def be64_def replicate_numeral sha1_Sum_def sha1_init_def
      sha1_block_def schedule_numeral schedule_one rotl32_def sha1_f_def sha1_k_def
      word_bytes_def hex_EncodeToString_def hex_digit_def del: schedule.simps)

lemma NewRequest_ok:
  assumes "RepoID inp \<noteq> []" "CommitID inp \<noteq> []" "ObjectID inp \<noteq> []" "Text_in inp \<noteq> []"
  shows "NewRequest now inp =
     (\<lparr>ID = hex_EncodeToString (sha1_Sum (bytes_of
               (RepoID inp @ ResultSeparatorUID @ CommitID inp @ ResultSeparatorUID
                  @ ObjectID inp @ ResultSeparatorUID @ Text_in inp))),
       Commit = \<lparr>Commit_ID = CommitID inp\<rparr>,
       Object = \<lparr>Object_ID = ObjectID inp, Object_Length = Length inp,
                 Object_Offset = Offset inp\<rparr>,
       Repository = \<lparr>Repository_ID = RepoID inp, Repository_URL = []\<rparr>,
       Time = \<lparr>Time_Start = now, Time_Stop = 0\<rparr>,
       Text = Text_in inp\<rparr>, None)"
  using assms by (simp add: NewRequest_def Let_def)

subsection \<open>The identifier of a request\<close>

text \<open>
  Claim C3. When the four strings are not empty, the identifier of the request that
  \<open>NewRequest\<close> returns is the lowercase hexadecimal SHA-1 digest of the repository
  identifier, the commit identifier, the object identifier and the text, in this order,
  joined by \<open>ResultSeparatorUID\<close>. It depends on nothing else: a second call with the same
  four strings, at another time and with another length and offset, gives the same
  identifier. For the strings \<open>test-repo\<close>, \<open>test-commit\<close>, \<open>test-object\<close> and
  \<open>test-text\<close> the identifier is \<open>0be325f9ba1df76ddfcf60fe972f3b0f06781ac1\<close>.
\<close>

theorem NewRequest_ID_fingerprint:
  assumes "RepoID inp \<noteq> []" "CommitID inp \<noteq> []" "ObjectID inp \<noteq> []" "Text_in inp \<noteq> []"
  shows "snd (NewRequest now inp) = None
       \<and> ID (fst (NewRequest now inp)) =
           hex_EncodeToString (sha1_Sum (bytes_of
             (strings_Join [RepoID inp, CommitID inp, ObjectID inp, Text_in inp]
                ResultSeparatorUID)))
       \<and> (RepoID inp' = RepoID inp \<and> CommitID inp' = CommitID inp
            \<and> ObjectID inp' = ObjectID inp \<and> Text_in inp' = Text_in inp
          \<longrightarrow> ID (fst (NewRequest now' inp')) = ID (fst (NewRequest now inp)))
       \<and> (RepoID inp = ''test-repo'' \<and> CommitID inp = ''test-commit''
            \<and> ObjectID inp = ''test-object'' \<and> Text_in inp = ''test-text''
          \<longrightarrow> ID (fst (NewRequest now inp)) = ''0be325f9ba1df76ddfcf60fe972f3b0f06781ac1'')"
proof (intro conjI impI)
  show "snd (NewRequest now inp) = None"
    using assms by (simp add: NewRequest_ok)
  show "ID (fst (NewRequest now inp)) =
      hex_EncodeToString (sha1_Sum (bytes_of
        (strings_Join [RepoID inp, CommitID inp, ObjectID inp, Text_in inp] ResultSeparatorUID)))"
    using assms by (simp add: NewRequest_ok)
next
  assume same: "RepoID inp' = RepoID inp \<and> CommitID inp' = CommitID inp
      \<and> ObjectID inp' = ObjectID inp \<and> Text_in inp' = Text_in inp"
  with assms have "RepoID inp' \<noteq> []" "CommitID inp' \<noteq> []" "ObjectID inp' \<noteq> []"
      "Text_in inp' \<noteq> []"
    by simp_all
  then have "ID (fst (NewRequest now' inp')) =
      hex_EncodeToString (sha1_Sum (bytes_of
        (RepoID inp' @ ResultSeparatorUID @ CommitID inp' @ ResultSeparatorUID
           @ ObjectID inp' @ ResultSeparatorUID @ Text_in inp')))"
    by (simp add: NewRequest_ok)
  with same assms show "ID (fst (NewRequest now' inp')) = ID (fst (NewRequest now inp))"
    by (simp add: NewRequest_ok)
next
  assume test: "RepoID inp = ''test-repo'' \<and> CommitID inp = ''test-commit''
      \<and> ObjectID inp = ''test-object'' \<and> Text_in inp = ''test-text''"
  have "ID (fst (NewRequest now inp)) =
      hex_EncodeToString (sha1_Sum (bytes_of
        (RepoID inp @ ResultSeparatorUID @ CommitID inp @ ResultSeparatorUID
           @ ObjectID inp @ ResultSeparatorUID @ Text_in inp)))"
    using assms by (simp add: NewRequest_ok)
  also have "RepoID inp @ ResultSeparatorUID @ CommitID inp @ ResultSeparatorUID
      @ ObjectID inp @ ResultSeparatorUID @ Text_in inp
      = ''test-repo__test-commit__test-object__test-text''"
    using test by (simp add: ResultSeparatorUID_def)
  finally show "ID (fst (NewRequest now inp)) = ''0be325f9ba1df76ddfcf60fe972f3b0f06781ac1''"
    by (simp only: sha1_test_vector)
qed

theorem NewRequest_ID_fingerprint_witness:
  "snd (NewRequest 1700000000000 test_request_input) = None
   \<and> ID (fst (NewRequest 1700000000000 test_request_input))
       = ''0be325f9ba1df76ddfcf60fe972f3b0f06781ac1''
   \<and> ID (fst (NewRequest 1 (test_request_input\<lparr>Length := 0, Offset := 7\<rparr>)))
       = ID (fst (NewRequest 1700000000000 test_request_input))"
proof -
  have ne: "RepoID test_request_input \<noteq> []" "CommitID test_request_input \<noteq> []"
      "ObjectID test_request_input \<noteq> []" "Text_in test_request_input \<noteq> []"
    by (simp_all add: test_request_input_def)
  have vals: "RepoID test_request_input = ''test-repo''
      \<and> CommitID test_request_input = ''test-commit''
      \<and> ObjectID test_request_input = ''test-object''
      \<and> Text_in test_request_input = ''test-text''"
    by (simp add: test_request_input_def)
  have same: "RepoID (test_request_input\<lparr>Length := 0, Offset := 7\<rparr>) = RepoID test_request_input
      \<and> CommitID (test_request_input\<lparr>Length := 0, Offset := 7\<rparr>) = CommitID test_request_input
      \<and> ObjectID (test_request_input\<lparr>Length := 0, Offset := 7\<rparr>) = ObjectID test_request_input
      \<and> Text_in (test_request_input\<lparr>Length := 0, Offset := 7\<rparr>) = Text_in test_request_input"
    by simp
  from NewRequest_ID_fingerprint [OF ne, of 1700000000000
      "test_request_input\<lparr>Length := 0, Offset := 7\<rparr>" 1] vals same
  show ?thesis by blast
qed

subsection \<open>The errors of \<open>NewRequest\<close>\<close>

text \<open>
  Claim C8. \<open>NewRequest\<close> returns an error exactly when one of the four strings is empty,
  and then the request it returns is the zero value. The error is
  \<open>ErrNewRequestEmptyRepositoryID\<close> for an empty repository identifier,
  \<open>ErrNewRequestEmptyObjectID\<close> for an empty object identifier,
  \<open>ErrNewRequestEmptyCommitID\<close> for an empty commit identifier and
  \<open>ErrNewRequestEmptyText\<close> for an empty text; the source checks them in this order, so
  that the first empty one of them decides. When all four are non-empty the error is nil.
\<close>

theorem NewRequest_errors:
  "(snd (NewRequest now inp) \<noteq> None)
      = (RepoID inp = [] \<or> ObjectID inp = [] \<or> CommitID inp = [] \<or> Text_in inp = [])
   \<and> (snd (NewRequest now inp) \<noteq> None \<longrightarrow> fst (NewRequest now inp) = Request_zero)
   \<and> (RepoID inp = []
        \<longrightarrow> snd (NewRequest now inp) = Some ErrNewRequestEmptyRepositoryID)
   \<and> (RepoID inp \<noteq> [] \<and> ObjectID inp = []
        \<longrightarrow> snd (NewRequest now inp) = Some ErrNewRequestEmptyObjectID)
   \<and> (RepoID inp \<noteq> [] \<and> ObjectID inp \<noteq> [] \<and> CommitID inp = []
        \<longrightarrow> snd (NewRequest now inp) = Some ErrNewRequestEmptyCommitID)
   \<and> (RepoID inp \<noteq> [] \<and> ObjectID inp \<noteq> [] \<and> CommitID inp \<noteq> [] \<and> Text_in inp = []
        \<longrightarrow> snd (NewRequest now inp) = Some ErrNewRequestEmptyText)
   \<and> (RepoID inp \<noteq> [] \<and> ObjectID inp \<noteq> [] \<and> CommitID inp \<noteq> [] \<and> Text_in inp \<noteq> []
        \<longrightarrow> snd (NewRequest now inp) = None)"
  by (simp add: NewRequest_def Let_def)

theorem NewRequest_errors_witness:
  "NewRequest 5 (test_request_input\<lparr>RepoID := []\<rparr>)
      = (Request_zero, Some ErrNewRequestEmptyRepositoryID)
   \<and> NewRequest 5 (test_request_input\<lparr>ObjectID := []\<rparr>)
      = (Request_zero, Some ErrNewRequestEmptyObjectID)
   \<and> NewRequest 5 (test_request_input\<lparr>CommitID := []\<rparr>)
      = (Request_zero, Some ErrNewRequestEmptyCommitID)
   \<and> NewRequest 5 (test_request_input\<lparr>Text_in := []\<rparr>)
      = (Request_zero, Some ErrNewRequestEmptyText)
   \<and> snd (NewRequest 5 test_request_input) = None"
  using NewRequest_errors [of 5 "test_request_input\<lparr>RepoID := []\<rparr>"]
    NewRequest_errors [of 5 "test_request_input\<lparr>ObjectID := []\<rparr>"]
    NewRequest_errors [of 5 "test_request_input\<lparr>CommitID := []\<rparr>"]
    NewRequest_errors [of 5 "test_request_input\<lparr>Text_in := []\<rparr>"]
    NewRequest_errors [of 5 test_request_input]
  by (simp add: test_request_input_def prod_eq_iff)

section \<open>Properties of the key tracker\<close>

subsection \<open>Merging children\<close>

lemma merge_children_complete_lookup:
  "fmlookup (merge_children KeyCodeComplete cs ch) c
     = (if c \<in> set cs then Some True else fmlookup ch c)"
  unfolding merge_children_def
  by (induction cs arbitrary: ch) (auto simp: merge_child_def)

lemma merge_children_other_lookup:
  assumes "code \<noteq> KeyCodeComplete"
  shows "fmlookup (merge_children code cs ch) c
     = (if c \<in> set cs \<and> fmlookup ch c = None then Some False else fmlookup ch c)"
  unfolding merge_children_def using assms
proof (induction cs arbitrary: ch)
  case Nil
  then show ?case by simp
next
  case (Cons a cs)
  then show ?case
    by (auto simp: merge_child_def fmdom_notI dest: fmdom_notD)
qed

lemma merge_children_nil [simp]: "merge_children code [] ch = ch"
  by (simp add: merge_children_def)

lemma has_incomplete_iff: "has_incomplete ch \<longleftrightarrow> (\<exists>c. fmlookup ch c = Some False)"
  by (auto simp: has_incomplete_def fmpred_iff)

lemma has_incomplete_empty [simp]: "\<not> has_incomplete fmempty"
  by (simp add: has_incomplete_iff)

lemma new_children_lookup:
  "fmlookup (fold (\<lambda>c m. fmupd c False m) cs ch) c
     = (if c \<in> set cs then Some False else fmlookup ch c)"
  by (induction cs arbitrary: ch) auto

subsection \<open>The two cases of \<open>Update\<close>\<close>

lemma KeyCodeValidate_iff:
  "KeyCodeValidate code = None \<longleftrightarrow> code \<in> {KeyCodeInit, KeyCodeError, KeyCodeIgnore,
     KeyCodePending, KeyCodeComplete}"
  by (auto simp: KeyCodeValidate_def KeyCodeInit_def KeyCodeError_def KeyCodeIgnore_def
      KeyCodePending_def KeyCodeComplete_def)

lemma Update_new:
  assumes "key \<noteq> []" "KeyCodeValidate code = None" "fmlookup (Keys kt) key = None"
  shows "Update now kt key code message cs
     = (Inr code, kt\<lparr>Keys := fmupd key (NewKeyData now code message cs) (Keys kt)\<rparr>)"
  using assms by (simp add: Update_def)

lemma Update_existing:
  assumes "key \<noteq> []" "KeyCodeValidate code = None" "fmlookup (Keys kt) key = Some kd"
  shows "Update now kt key code message cs
     = (Inr (fst (KeyData_update now kd code message cs)),
        kt\<lparr>Keys := fmupd key (snd (KeyData_update now kd code message cs)) (Keys kt)\<rparr>)"
  using assms by (simp add: Update_def split: prod.splits)

lemma Update_error_unchanged:
  "fst (Update now kt key code message cs) = Inl e \<Longrightarrow> snd (Update now kt key code message cs) = kt"
  by (auto simp: Update_def split: if_splits option.splits prod.splits)

lemma Update_empty_key [simp]: "Update now kt [] code message cs = (Inl ErrKeyUpdateKeyEmpty, kt)"
  by (simp add: Update_def)

lemma Update_other_key:
  assumes "k \<noteq> key"
  shows "fmlookup (Keys (snd (Update now kt key code message cs))) k = fmlookup (Keys kt) k"
  using assms by (auto simp: Update_def split: option.splits prod.splits)

lemma Update_Kind [simp]: "Kind (snd (Update now kt key code message cs)) = Kind kt"
  by (auto simp: Update_def split: option.splits prod.splits)

lemma KeyData_update_complete:
  assumes "Code kd = KeyCodeComplete"
  shows "KeyData_update now kd code message cs
     = (KeyCodeComplete, kd\<lparr>Children := merge_children code cs (Children kd)\<rparr>)"
  using assms by (simp add: KeyData_update_def Let_def)

lemma KeyData_update_adopt:
  assumes "Code kd \<noteq> KeyCodeComplete" "Children kd = fmempty"
  shows "KeyData_update now kd code message []
     = (code, kd\<lparr>Children := fmempty, Code := code, Message := message,
                 State := KeyCodeToState code, TimestampLatest := now\<rparr>)"
  using assms by (simp add: KeyData_update_def Let_def)

subsection \<open>Completion is final\<close>

lemma Update_complete_step:
  assumes "key \<noteq> []" "KeyCodeValidate code = None" "Get kt key = Some kd"
    "Code kd = KeyCodeComplete"
  shows "Update now kt key code message cs
     = (Inr KeyCodeComplete,
        kt\<lparr>Keys := fmupd key (kd\<lparr>Children := merge_children code cs (Children kd)\<rparr>) (Keys kt)\<rparr>)"
  using assms by (simp add: Get_def Update_existing KeyData_update_complete)

lemma Update_all_complete:
  assumes "key \<noteq> []" "list_all (\<lambda>u. KeyCodeValidate (fst u) = None) us"
    "Get kt key = Some kd" "Code kd = KeyCodeComplete"
  shows "fst (Update_all now kt key us) = map (\<lambda>u. Inr KeyCodeComplete) us
     \<and> map_option Code (Get (snd (Update_all now kt key us)) key) = Some KeyCodeComplete
     \<and> map_option Message (Get (snd (Update_all now kt key us)) key) = Some (Message kd)"
  using assms
proof (induction us arbitrary: kt kd)
  case Nil
  then show ?case by simp
next
  case (Cons u us)
  obtain c m ch where u: "u = (c, m, ch)" by (cases u)
  let ?kd = "kd\<lparr>Children := merge_children c ch (Children kd)\<rparr>"
  let ?kt = "kt\<lparr>Keys := fmupd key ?kd (Keys kt)\<rparr>"
  from Cons.prems u have step: "Update now kt key c m ch = (Inr KeyCodeComplete, ?kt)"
    by (simp add: Update_complete_step)
  have get: "Get ?kt key = Some ?kd" by (simp add: Get_def)
  have code: "Code ?kd = KeyCodeComplete" using Cons.prems by simp
  from Cons.prems have rest: "list_all (\<lambda>u. KeyCodeValidate (fst u) = None) us" by simp
  from Cons.IH [OF Cons.prems(1) rest get code] step u
  show ?case by (simp add: split_beta)
qed

lemma Update_all_append:
  "Update_all now kt key (us @ vs)
     = (fst (Update_all now kt key us) @ fst (Update_all now (snd (Update_all now kt key us)) key vs),
        snd (Update_all now (snd (Update_all now kt key us)) key vs))"
  by (induction us arbitrary: kt) (auto simp: split_beta)

lemma codes_valid [simp]:
  "KeyCodeValidate KeyCodeInit = None" "KeyCodeValidate KeyCodeError = None"
  "KeyCodeValidate KeyCodeIgnore = None" "KeyCodeValidate KeyCodePending = None"
  "KeyCodeValidate KeyCodeComplete = None"
  by (simp_all add: KeyCodeValidate_iff)

lemma codes_distinct [simp]:
  "KeyCodeInit \<noteq> KeyCodeComplete" "KeyCodeError \<noteq> KeyCodeComplete"
  "KeyCodeIgnore \<noteq> KeyCodeComplete" "KeyCodePending \<noteq> KeyCodeComplete"
  "KeyCodeComplete \<noteq> KeyCodePending"
  by (simp_all add: KeyCodeInit_def KeyCodeError_def KeyCodeIgnore_def KeyCodePending_def
      KeyCodeComplete_def)

lemma progression_reaches_complete:
  assumes "key \<noteq> []" "Get kt key = None"
  shows "\<exists>kd. Get (snd (Update_all now kt key (updates_of_codes
            [KeyCodeInit, KeyCodeError, KeyCodeIgnore, KeyCodePending, KeyCodeComplete]))) key
          = Some kd \<and> Code kd = KeyCodeComplete"
proof -
  let ?k0 = "NewKeyData now KeyCodeInit [] []"
  let ?kt0 = "kt\<lparr>Keys := fmupd key ?k0 (Keys kt)\<rparr>"
  have s0: "Update now kt key KeyCodeInit [] [] = (Inr KeyCodeInit, ?kt0)"
    using assms by (simp add: Update_new Get_def)
  have step: "Update now (kt\<lparr>Keys := fmupd key kd (Keys kt)\<rparr>) key c [] []
      = (Inr c, kt\<lparr>Keys := fmupd key (kd\<lparr>Children := fmempty, Code := c, Message := [],
            State := KeyCodeToState c, TimestampLatest := now\<rparr>) (Keys kt)\<rparr>)"
    if "Code kd \<noteq> KeyCodeComplete" "Children kd = fmempty" "KeyCodeValidate c = None"
    for kd c
    using that assms(1) by (simp add: Update_existing KeyData_update_adopt)
  show ?thesis
    by (simp add: updates_of_codes_def s0 step NewKeyData_def Get_def split_beta)
qed

text \<open>
  Claim C2. A key whose stored code is \<open>COMPLETE\<close> keeps this code and its message under
  every later update of the key with a valid code, and each such update returns
  \<open>COMPLETE\<close>; this holds for one update and for any list of updates. Applying the codes
  \<open>INIT\<close>, \<open>ERROR\<close>, \<open>IGNORE\<close>, \<open>PENDING\<close>, \<open>COMPLETE\<close> and then \<open>PENDING\<close>, \<open>IGNORE\<close>,
  \<open>ERROR\<close>, \<open>INIT\<close> to a key that is new ends with the code \<open>COMPLETE\<close>. A key is a
  non-empty string: \<open>Update\<close> refuses the empty key.
\<close>

theorem Update_monotonic_completion:
  "(key \<noteq> [] \<and> Get kt key = Some kd \<and> Code kd = KeyCodeComplete
      \<and> new_code \<in> {KeyCodeInit, KeyCodeError, KeyCodeIgnore, KeyCodePending, KeyCodeComplete}
    \<longrightarrow> fst (Update now kt key new_code message child_keys) = Inr KeyCodeComplete
      \<and> map_option Code (Get (snd (Update now kt key new_code message child_keys)) key)
          = Some KeyCodeComplete
      \<and> map_option Message (Get (snd (Update now kt key new_code message child_keys)) key)
          = Some (Message kd))
   \<and> (key \<noteq> [] \<and> Get kt key = Some kd \<and> Code kd = KeyCodeComplete
      \<and> list_all (\<lambda>u. KeyCodeValidate (fst u) = None) us
    \<longrightarrow> fst (Update_all now kt key us) = map (\<lambda>u. Inr KeyCodeComplete) us
      \<and> map_option Code (Get (snd (Update_all now kt key us)) key) = Some KeyCodeComplete
      \<and> map_option Message (Get (snd (Update_all now kt key us)) key) = Some (Message kd))
   \<and> (key \<noteq> [] \<and> Get kt key = None
    \<longrightarrow> map_option Code (Get (snd (Update_all now kt key (updates_of_codes
            [KeyCodeInit, KeyCodeError, KeyCodeIgnore, KeyCodePending, KeyCodeComplete,
             KeyCodePending, KeyCodeIgnore, KeyCodeError, KeyCodeInit]))) key)
          = Some KeyCodeComplete)"
proof (intro conjI impI)
  assume a: "key \<noteq> [] \<and> Get kt key = Some kd \<and> Code kd = KeyCodeComplete
      \<and> new_code \<in> {KeyCodeInit, KeyCodeError, KeyCodeIgnore, KeyCodePending, KeyCodeComplete}"
  then have v: "KeyCodeValidate new_code = None" by (simp add: KeyCodeValidate_iff)
  from a v have step: "Update now kt key new_code message child_keys
      = (Inr KeyCodeComplete,
         kt\<lparr>Keys := fmupd key (kd\<lparr>Children := merge_children new_code child_keys (Children kd)\<rparr>)
           (Keys kt)\<rparr>)"
    by (simp add: Update_complete_step)
  show "fst (Update now kt key new_code message child_keys) = Inr KeyCodeComplete"
    by (simp add: step)
  show "map_option Code (Get (snd (Update now kt key new_code message child_keys)) key)
      = Some KeyCodeComplete"
    using a by (simp add: step Get_def)
  show "map_option Message (Get (snd (Update now kt key new_code message child_keys)) key)
      = Some (Message kd)"
    by (simp add: step Get_def)
next
  assume a: "key \<noteq> [] \<and> Get kt key = Some kd \<and> Code kd = KeyCodeComplete
      \<and> list_all (\<lambda>u. KeyCodeValidate (fst u) = None) us"
  then have all: "fst (Update_all now kt key us) = map (\<lambda>u. Inr KeyCodeComplete) us
     \<and> map_option Code (Get (snd (Update_all now kt key us)) key) = Some KeyCodeComplete
     \<and> map_option Message (Get (snd (Update_all now kt key us)) key) = Some (Message kd)"
    by (intro Update_all_complete) simp_all
  show "fst (Update_all now kt key us) = map (\<lambda>u. Inr KeyCodeComplete) us"
    using all by simp
  show "map_option Code (Get (snd (Update_all now kt key us)) key) = Some KeyCodeComplete"
    using all by simp
  show "map_option Message (Get (snd (Update_all now kt key us)) key) = Some (Message kd)"
    using all by simp
next
  assume a: "key \<noteq> [] \<and> Get kt key = None"
  let ?up = "updates_of_codes
      [KeyCodeInit, KeyCodeError, KeyCodeIgnore, KeyCodePending, KeyCodeComplete]"
  let ?down = "updates_of_codes [KeyCodePending, KeyCodeIgnore, KeyCodeError, KeyCodeInit]"
  let ?kt = "snd (Update_all now kt key ?up)"
  from a obtain kd1 where kd1: "Get ?kt key = Some kd1" "Code kd1 = KeyCodeComplete"
    using progression_reaches_complete by blast
  have "list_all (\<lambda>u. KeyCodeValidate (fst u) = None) ?down"
    by (simp add: updates_of_codes_def)
  with a kd1 have "map_option Code (Get (snd (Update_all now ?kt key ?down)) key)
      = Some KeyCodeComplete"
    using Update_all_complete by blast
  moreover have "updates_of_codes
      [KeyCodeInit, KeyCodeError, KeyCodeIgnore, KeyCodePending, KeyCodeComplete,
       KeyCodePending, KeyCodeIgnore, KeyCodeError, KeyCodeInit] = ?up @ ?down"
    by (simp add: updates_of_codes_def)
  ultimately show "map_option Code (Get (snd (Update_all now kt key (updates_of_codes
      [KeyCodeInit, KeyCodeError, KeyCodeIgnore, KeyCodePending, KeyCodeComplete,
       KeyCodePending, KeyCodeIgnore, KeyCodeError, KeyCodeInit]))) key) = Some KeyCodeComplete"
    by (simp only: Update_all_append snd_conv)
qed

theorem Update_monotonic_completion_witness:
  "fst (Update 2 regression_tracker ''Regression'' KeyCodePending ''test message pending'' [])
      = Inr KeyCodeComplete
   \<and> map_option Code (Get (snd (Update 2 regression_tracker ''Regression'' KeyCodePending
          ''test message pending'' [])) ''Regression'') = Some KeyCodeComplete
   \<and> map_option Message (Get (snd (Update 2 regression_tracker ''Regression'' KeyCodePending
          ''test message pending'' [])) ''Regression'') = Some ''test message complete''
   \<and> map_option Code (Get (snd (Update_all 0 (NewKeyTracker ScanObjectTypeFile) ''A''
          (updates_of_codes
             [KeyCodeInit, KeyCodeError, KeyCodeIgnore, KeyCodePending, KeyCodeComplete,
              KeyCodePending, KeyCodeIgnore, KeyCodeError, KeyCodeInit]))) ''A'')
      = Some KeyCodeComplete"
proof -
  let ?kd = "NewKeyData 1 KeyCodeComplete ''test message complete'' []"
  have get: "Get regression_tracker ''Regression'' = Some ?kd"
    by (simp add: regression_tracker_def Update_def NewKeyTracker_def Get_def)
  have code: "Code ?kd = KeyCodeComplete" and msg: "Message ?kd = ''test message complete''"
    by (simp_all add: NewKeyData_def)
  have new: "Get (NewKeyTracker ScanObjectTypeFile) ''A'' = None"
    by (simp add: NewKeyTracker_def Get_def)
  from Update_monotonic_completion [where key = "''Regression''" and kt = regression_tracker
      and kd = ?kd and new_code = KeyCodePending and now = 2
      and message = "''test message pending''" and child_keys = "[]"] get code msg
  have first: "fst (Update 2 regression_tracker ''Regression'' KeyCodePending
        ''test message pending'' []) = Inr KeyCodeComplete
      \<and> map_option Code (Get (snd (Update 2 regression_tracker ''Regression'' KeyCodePending
          ''test message pending'' [])) ''Regression'') = Some KeyCodeComplete
      \<and> map_option Message (Get (snd (Update 2 regression_tracker ''Regression'' KeyCodePending
          ''test message pending'' [])) ''Regression'') = Some ''test message complete''"
    by simp
  from Update_monotonic_completion [where key = "''A''"
      and kt = "NewKeyTracker ScanObjectTypeFile" and now = 0] new
  have "map_option Code (Get (snd (Update_all 0 (NewKeyTracker ScanObjectTypeFile) ''A''
          (updates_of_codes
             [KeyCodeInit, KeyCodeError, KeyCodeIgnore, KeyCodePending, KeyCodeComplete,
              KeyCodePending, KeyCodeIgnore, KeyCodeError, KeyCodeInit]))) ''A'')
      = Some KeyCodeComplete"
    by simp
  with first show ?thesis by simp
qed

subsection \<open>All keys complete\<close>

text \<open>
  Claim C4. \<open>CheckAllComplete\<close> is true exactly when every key of the tracker has the code
  \<open>COMPLETE\<close> or \<open>ERROR\<close>. It is true of a tracker without keys, and false as soon as one
  key is \<open>INIT\<close>, \<open>PENDING\<close> or \<open>IGNORE\<close>.
\<close>

theorem CheckAllComplete_terminal:
  "(CheckAllComplete kt \<longleftrightarrow>
      (\<forall>k d. Get kt k = Some d \<longrightarrow> Code d = KeyCodeComplete \<or> Code d = KeyCodeError))
   \<and> CheckAllComplete (NewKeyTracker kind)
   \<and> (Get kt k = Some d
        \<and> (Code d = KeyCodeInit \<or> Code d = KeyCodePending \<or> Code d = KeyCodeIgnore)
      \<longrightarrow> \<not> CheckAllComplete kt)"
proof (intro conjI impI)
  show iff: "CheckAllComplete kt \<longleftrightarrow>
      (\<forall>k d. Get kt k = Some d \<longrightarrow> Code d = KeyCodeComplete \<or> Code d = KeyCodeError)"
    by (simp add: CheckAllComplete_def Get_def fmpred_iff)
  show "CheckAllComplete (NewKeyTracker kind)"
    by (simp add: CheckAllComplete_def NewKeyTracker_def)
  assume "Get kt k = Some d
      \<and> (Code d = KeyCodeInit \<or> Code d = KeyCodePending \<or> Code d = KeyCodeIgnore)"
  then have "Get kt k = Some d" "Code d \<noteq> KeyCodeComplete" "Code d \<noteq> KeyCodeError"
    by (auto simp: KeyCodeInit_def KeyCodeError_def KeyCodeIgnore_def KeyCodePending_def
        KeyCodeComplete_def)
  then show "\<not> CheckAllComplete kt"
    unfolding iff by blast
qed

theorem CheckAllComplete_terminal_witness:
  "\<not> CheckAllComplete pending_file_tracker
   \<and> CheckAllComplete (NewKeyTracker ScanObjectTypeCommit)"
proof -
  let ?kd = "NewKeyData 1 KeyCodePending [] [''r1'', ''r2'']"
  have "Get pending_file_tracker ''f'' = Some ?kd"
    by (simp add: pending_file_tracker_def Update_def NewKeyTracker_def Get_def)
  moreover have "Code ?kd = KeyCodePending"
    by (simp add: NewKeyData_def)
  ultimately have "Get pending_file_tracker ''f'' = Some ?kd
      \<and> (Code ?kd = KeyCodeInit \<or> Code ?kd = KeyCodePending \<or> Code ?kd = KeyCodeIgnore)"
    by simp
  with CheckAllComplete_terminal [where kt = pending_file_tracker and k = "''f''"
      and d = ?kd and kind = ScanObjectTypeCommit]
  show ?thesis by blast
qed

subsection \<open>Completion waits for the children\<close>

lemma KeyCodeToState_simps [simp]:
  "KeyCodeToState KeyCodePending = KeyStatePending"
  "KeyCodeToState KeyCodeComplete = KeyStateComplete"
  by (simp_all add: KeyCodeToState_def KeyCodeInit_def KeyCodeError_def KeyCodeIgnore_def
      KeyCodePending_def KeyCodeComplete_def)






section \<open>Properties of the scanner\<close>

subsection \<open>The guards of \<open>scanRepository\<close>\<close>

text \<open>
  Claim C9, evaluated on the source. With a nil \<open>errors_out\<close> the call panics before
  anything else. With a channel and a nil repository it sends \<open>ErrScannerRepositoryNil\<close>
  and then goes on, since the guard has no \<open>return\<close>: it stores the nil repository,
  starts the checkpoint goroutine and calls \<open>CommitObjects()\<close> on the nil repository,
  where it panics. No commit is walked, and the call does not return.
\<close>

theorem scanRepository_guards:
  "run_outcome (scanRepository now s repo_url repo False)
      = Panicked ''received nil error channel as input''
   \<and> errors_sent (scanRepository now s repo_url repo False) = []
   \<and> checkpoint_started (scanRepository now s repo_url repo False) = False
   \<and> scanRepository now s repo_url None True
      = \<lparr>run_scanner = s\<lparr>repository := None, URL := repo_url\<rparr>,
         errors_sent = [ErrScannerRepositoryNil], checkpoint_started = True,
         commits_walked = [], commits_queued = [],
         run_outcome
           = Panicked ''runtime error: invalid memory address or nil pointer dereference''\<rparr>"
  by (simp add: scanRepository_def CommitObjects_def ErrMsgErrorChannelNil_def
      nil_dereference_def)

subsection \<open>Reading a checkpoint that does not exist\<close>

lemma getCheckpointPath_ok:
  assumes "work_dir \<noteq> []" "repo_url \<noteq> []"
    and "ParseOrgNameFromURL ng repo_url = Inr org"
    and "ParseRepoNameFromURL ng repo_url = Inr repo"
  shows "getCheckpointPath ng work_dir repo_url commit_id
     = Inr (work_dir @ ''/checkpoints/'' @ org @ ''_'' @ repo
            @ (if commit_id = [] then [] else ''_'' @ commit_id) @ ''.checkpoint'')"
  using assms
  by (simp add: getCheckpointPath_def WorkDirCheckpoints_def CheckpointFileExtension_def)

lemma test_checkpoint_path:
  "getCheckpointPath test_nogit test_work_dir test_repo_url [] = Inr test_checkpoint_path"
  by (simp add: getCheckpointPath_def test_nogit_def test_work_dir_def test_repo_url_def
      test_checkpoint_path_def WorkDirCheckpoints_def CheckpointFileExtension_def)

lemma test_checkpoint_parent:
  "parent_dir test_checkpoint_path = ''/tmp/no-phi-ai/test/pkg/scanner/checkpoints''"
  by (simp add: parent_dir_def test_checkpoint_path_def)

text \<open>
  Claim C10, as the code has it. On a first run the directory of the checkpoints does not
  exist. \<open>os.OpenFile\<close> does not create it, so the open fails: the error wraps
  \<open>ErrCheckpointFileOpenFailed\<close>, and no file is created.
\<close>

theorem CheckpointGet_missing_directory_counterexample:
  "getCheckpointPath test_nogit test_work_dir test_repo_url [] = Inr test_checkpoint_path
   \<and> fmlookup (fs_files fs_fresh) test_checkpoint_path = None
   \<and> CheckpointGet test_nogit test_codec fs_fresh test_work_dir test_repo_url []
      = ((None, Some (Wrap ErrCheckpointFileOpenFailed
            (''open '' @ test_checkpoint_path @ '': no such file or directory''))),
         fs_fresh)"
  by (simp add: CheckpointGet_def openCheckpointFile_def test_checkpoint_path os_OpenFile_def
      test_checkpoint_parent fs_fresh_def)
    (simp add: test_checkpoint_path_def test_work_dir_def)

text \<open>
  Claim C10, amended. For a non-empty \<open>work_dir\<close> and a \<open>repo_url\<close> that parses, if the
  directory of the checkpoint path exists and nothing exists at the path itself, then
  \<open>CheckpointGet\<close> returns a nil checkpoint and an error that wraps
  \<open>ErrCheckpointFileReadFailed\<close> with the message \<open>file size is 0\<close>, and it leaves a new
  empty file at the path: the file is opened with the create flag before its size is
  checked. If the directory does not exist either, the error wraps
  \<open>ErrCheckpointFileOpenFailed\<close> and the file system is unchanged.
\<close>

theorem CheckpointGet_creates_empty_file:
  assumes "work_dir \<noteq> []" "repo_url \<noteq> []"
    and "ParseOrgNameFromURL ng repo_url = Inr org"
    and "ParseRepoNameFromURL ng repo_url = Inr repo"
    and "path = work_dir @ ''/checkpoints/'' @ org @ ''_'' @ repo
            @ (if commit_id = [] then [] else ''_'' @ commit_id) @ ''.checkpoint''"
    and "fmlookup (fs_files fs) path = None" "path |\<notin>| fs_dirs fs"
  shows "(parent_dir path |\<in>| fs_dirs fs
      \<longrightarrow> CheckpointGet ng cd fs work_dir repo_url commit_id
          = ((None, Some (Wrap ErrCheckpointFileReadFailed ''file size is 0'')),
             fs\<lparr>fs_files := fmupd path [] (fs_files fs)\<rparr>))
    \<and> (parent_dir path |\<notin>| fs_dirs fs
      \<longrightarrow> CheckpointGet ng cd fs work_dir repo_url commit_id
          = ((None, Some (Wrap ErrCheckpointFileOpenFailed
                (''open '' @ path @ '': no such file or directory''))), fs))"
proof -
  have p: "getCheckpointPath ng work_dir repo_url commit_id = Inr path"
    using assms(1-5) by (simp add: getCheckpointPath_ok)
  from assms(6) have nf: "path |\<notin>| fmdom (fs_files fs)"
    by (simp add: fmdom_notI)
  show ?thesis
    using nf assms(7)
    by (simp add: CheckpointGet_def openCheckpointFile_def p os_OpenFile_def file_size_def)
qed

theorem CheckpointGet_creates_empty_file_witness:
  "CheckpointGet test_nogit test_codec fs_prepared test_work_dir test_repo_url []
     = ((None, Some (Wrap ErrCheckpointFileReadFailed ''file size is 0'')),
        fs_prepared\<lparr>fs_files := fmupd test_checkpoint_path [] fmempty\<rparr>)"
proof -
  have path: "test_checkpoint_path = test_work_dir @ ''/checkpoints/'' @ ''BlackIQ'' @ ''_''
      @ ''learn'' @ (if ([] :: string) = [] then [] else ''_'' @ []) @ ''.checkpoint''"
    by (simp add: test_checkpoint_path_def test_work_dir_def)
  have dirs: "test_checkpoint_path |\<notin>| fs_dirs fs_prepared"
      "parent_dir test_checkpoint_path |\<in>| fs_dirs fs_prepared"
    by (simp_all add: test_checkpoint_parent fs_prepared_def)
      (simp add: test_checkpoint_path_def test_work_dir_def)
  have files: "fmlookup (fs_files fs_prepared) test_checkpoint_path = None"
      "fs_files fs_prepared = fmempty"
    by (simp_all add: fs_prepared_def)
  have wd: "test_work_dir \<noteq> []" "test_repo_url \<noteq> []"
    by (simp_all add: test_work_dir_def test_repo_url_def)
  have parse: "ParseOrgNameFromURL test_nogit test_repo_url = Inr ''BlackIQ''"
      "ParseRepoNameFromURL test_nogit test_repo_url = Inr ''learn''"
    by (simp_all add: test_nogit_def)
  from CheckpointGet_creates_empty_file [OF wd parse path files(1) dirs(1), of test_codec]
    dirs(2) files(2)
  show ?thesis by simp
qed

subsection \<open>The reconciler\<close>

lemma range_keys_set [simp]: "set (range_keys m) = fset (fmdom m)"
  by (simp add: range_keys_def)

lemma sorted_list_of_fset_distinct: "distinct (sorted_list_of_fset S)"
  by (simp add: sorted_list_of_fset.rep_eq)

lemma range_keys_distinct [simp]: "distinct (range_keys m)"
  by (simp add: range_keys_def sorted_list_of_fset_distinct)

lemma children_complete_set:
  "c \<in> set (children_complete tr ch cs) \<longleftrightarrow>
     c \<in> set cs \<and> fmlookup ch c \<noteq> Some True
       \<and> (\<exists>d. Get tr c = Some d \<and> Code d = KeyCodeComplete)"
  by (induction cs) (auto split: option.splits)

text \<open>One round of the loop changes the entry of its key only, as \<open>reconcile_entry\<close> says.\<close>

lemma reconcile_step_lookup:
  assumes "fmlookup (Keys kt) k = Some kd"
  shows "fmlookup (Keys (if 0 < length (children_complete tr (Children kd) (range_keys (Children kd)))
            then snd (Update now kt k KeyCodeComplete []
                   (children_complete tr (Children kd) (range_keys (Children kd))))
            else kt)) k'
     = (if k' = k then Some (reconcile_entry now tr k kd) else fmlookup (Keys kt) k')"
proof (cases "k = []")
  case True
  with assms show ?thesis by (simp add: reconcile_entry_def)
next
  case False
  with assms show ?thesis
    by (simp add: reconcile_entry_def Update_existing)
qed

lemma reconcile_step_Kind:
  "Kind (if b then snd (Update now kt k KeyCodeComplete [] cs) else kt) = Kind kt"
  by simp

lemma reconcile_keys_Kind [simp]: "Kind (reconcile_keys clock tr pending ks kt) = Kind kt"
  by (induction ks arbitrary: kt) (auto simp: Let_def split: option.splits)

lemma reconcile_keys_lookup:
  assumes "distinct ks"
    and "\<And>k kd. k \<in> set ks \<Longrightarrow> fmlookup pending k = Some kd \<Longrightarrow> fmlookup (Keys kt) k = Some kd"
  shows "fmlookup (Keys (reconcile_keys clock tr pending ks kt)) k
     = (case (if k \<in> set ks then fmlookup pending k else None) of
          None \<Rightarrow> fmlookup (Keys kt) k
        | Some kd \<Rightarrow> Some (reconcile_entry (clock k) tr k kd))"
  using assms
proof (induction ks arbitrary: kt)
  case Nil
  then show ?case by simp
next
  case (Cons a ks)
  show ?case
  proof (cases "fmlookup pending a")
    case None
    with Cons show ?thesis by auto
  next
    case (Some ad)
    define cs where "cs = children_complete tr (Children ad) (range_keys (Children ad))"
    define kt' where
      "kt' = (if 0 < length cs then snd (Update (clock a) kt a KeyCodeComplete [] cs) else kt)"
    from Cons.prems Some have kta: "fmlookup (Keys kt) a = Some ad" by simp
    have look: "fmlookup (Keys kt') k'
        = (if k' = a then Some (reconcile_entry (clock a) tr a ad) else fmlookup (Keys kt) k')"
      for k'
      unfolding kt'_def cs_def by (rule reconcile_step_lookup [OF kta])
    from Cons.prems have d: "distinct ks" and na: "a \<notin> set ks" by simp_all
    have pre: "fmlookup (Keys kt') k' = Some kd'"
      if "k' \<in> set ks" "fmlookup pending k' = Some kd'" for k' kd'
    proof -
      from that na have ne: "k' \<noteq> a" by auto
      from that Cons.prems(2) [of k' kd'] have old: "fmlookup (Keys kt) k' = Some kd'" by simp
      show ?thesis unfolding look using ne old by simp
    qed
    have step: "reconcile_keys clock tr pending (a # ks) kt
        = reconcile_keys clock tr pending ks kt'"
      using Some by (simp add: Let_def kt'_def cs_def)
    have "fmlookup (Keys (reconcile_keys clock tr pending ks kt')) k
        = (case (if k \<in> set ks then fmlookup pending k else None) of
             None \<Rightarrow> fmlookup (Keys kt') k
           | Some kd \<Rightarrow> Some (reconcile_entry (clock k) tr k kd))"
      by (rule Cons.IH [OF d pre])
    also have "\<dots> = (case (if k \<in> set (a # ks) then fmlookup pending k else None) of
             None \<Rightarrow> fmlookup (Keys kt) k
           | Some kd \<Rightarrow> Some (reconcile_entry (clock k) tr k kd))"
      unfolding look using na Some by (auto split: option.splits)
    finally show ?thesis unfolding step .
  qed
qed

text \<open>A loop over keys that are all settled changes nothing.\<close>

lemma reconcile_keys_settled:
  assumes "\<And>k kd. fmlookup pending k = Some kd \<Longrightarrow>
      k = [] \<or> children_complete tr (Children kd) (range_keys (Children kd)) = []"
  shows "reconcile_keys clock tr pending ks kt = kt"
proof (induction ks)
  case Nil
  show ?case by simp
next
  case (Cons a ks)
  show ?case
  proof (cases "fmlookup pending a")
    case None
    with Cons show ?thesis by simp
  next
    case (Some ad)
    from assms [OF Some] have "(if 0 < length (children_complete tr (Children ad)
          (range_keys (Children ad)))
        then snd (Update (clock a) kt a KeyCodeComplete []
          (children_complete tr (Children ad) (range_keys (Children ad)))) else kt) = kt"
      by auto
    with Some Cons show ?thesis by (simp add: Let_def)
  qed
qed

text \<open>After its update, an entry has no child left that the loop would promote.\<close>

lemma reconcile_entry_settled:
  assumes "Code kd \<noteq> KeyCodeComplete"
  shows "k = [] \<or> children_complete tr (Children (reconcile_entry now tr k kd))
      (range_keys (Children (reconcile_entry now tr k kd))) = []"
proof (cases "k = [] \<or> children_complete tr (Children kd) (range_keys (Children kd)) = []")
  case True
  then show ?thesis by (auto simp: reconcile_entry_def)
next
  case False
  let ?cs = "children_complete tr (Children kd) (range_keys (Children kd))"
  let ?ch = "merge_children KeyCodeComplete ?cs (Children kd)"
  from False assms have ch: "Children (reconcile_entry now tr k kd) = ?ch"
    by (simp add: reconcile_entry_def KeyData_update_def Let_def)
  have "c \<notin> set (children_complete tr ?ch (range_keys ?ch))" for c
  proof
    assume "c \<in> set (children_complete tr ?ch (range_keys ?ch))"
    then have c: "c |\<in>| fmdom ?ch" "fmlookup ?ch c \<noteq> Some True"
        "\<exists>d. Get tr c = Some d \<and> Code d = KeyCodeComplete"
      by (simp_all add: children_complete_set)
    from c(2) have notin: "c \<notin> set ?cs" and same: "fmlookup ?ch c = fmlookup (Children kd) c"
      by (auto simp: merge_children_complete_lookup split: if_splits)
    from c(1) same have "c |\<in>| fmdom (Children kd)"
      by (simp add: fmlookup_dom_iff)
    with c(2,3) same have "c \<in> set ?cs"
      by (simp add: children_complete_set)
    with notin show False by simp
  qed
  then have "children_complete tr ?ch (range_keys ?ch) = []"
    by (cases "children_complete tr ?ch (range_keys ?ch)") auto
  with ch show ?thesis by simp
qed

lemma pending_lookup:
  "GetKeysDataForCode kt KeyCodePending
     = Inr (fmfilter (\<lambda>k. case fmlookup (Keys kt) k of
                             None \<Rightarrow> False | Some d \<Rightarrow> Code d = KeyCodePending) (Keys kt))"
  by (simp add: GetKeysDataForCode_def)

text \<open>The loop over the pending keys of a tracker leaves every pending key settled.\<close>

lemma reconcile_keys_result_settled:
  assumes p: "GetKeysDataForCode kt KeyCodePending = Inr pending"
    and r: "fmlookup (Keys (reconcile_keys clock tr pending (range_keys pending) kt)) k = Some kd'"
    and c: "Code kd' = KeyCodePending"
  shows "k = [] \<or> children_complete tr (Children kd') (range_keys (Children kd')) = []"
proof -
  from p have pend: "fmlookup pending k' = (case fmlookup (Keys kt) k' of None \<Rightarrow> None
      | Some d \<Rightarrow> if Code d = KeyCodePending then Some d else None)" for k'
    by (auto simp: pending_lookup split: option.splits)
  have sub: "fmlookup (Keys kt) k' = Some d"
    if "k' \<in> set (range_keys pending)" "fmlookup pending k' = Some d" for k' d
    using that(2) by (auto simp: pend split: option.splits if_splits)
  have look: "fmlookup (Keys (reconcile_keys clock tr pending (range_keys pending) kt)) k
      = (case fmlookup pending k of None \<Rightarrow> fmlookup (Keys kt) k
         | Some kd \<Rightarrow> Some (reconcile_entry (clock k) tr k kd))"
    using reconcile_keys_lookup [where ks = "range_keys pending" and pending = pending
        and kt = kt and clock = clock and tr = tr and k = k, OF range_keys_distinct sub]
    by (auto simp: fmlookup_dom_iff split: option.splits)
  show ?thesis
  proof (cases "fmlookup pending k")
    case None
    with r look have "fmlookup (Keys kt) k = Some kd'" by simp
    with c have "fmlookup pending k = Some kd'" by (simp add: pend)
    with None show ?thesis by simp
  next
    case (Some kd)
    with r look have kd': "kd' = reconcile_entry (clock k) tr k kd" by simp
    from Some have "Code kd = KeyCodePending"
      by (auto simp: pend split: option.splits if_splits)
    then have "Code kd \<noteq> KeyCodeComplete" by simp
    from reconcile_entry_settled [OF this, of k tr "clock k"] kd' show ?thesis by simp
  qed
qed

lemma reconcile_keys_idem:
  assumes p: "GetKeysDataForCode kt KeyCodePending = Inr pending"
    and p': "GetKeysDataForCode (reconcile_keys clock tr pending (range_keys pending) kt)
        KeyCodePending = Inr pending'"
  shows "reconcile_keys clock' tr pending' ks
        (reconcile_keys clock tr pending (range_keys pending) kt)
     = reconcile_keys clock tr pending (range_keys pending) kt"
proof (rule reconcile_keys_settled)
  fix k kd
  assume "fmlookup pending' k = Some kd"
  with p' have "fmlookup (Keys (reconcile_keys clock tr pending (range_keys pending) kt)) k
      = Some kd" "Code kd = KeyCodePending"
    by (auto simp: pending_lookup split: option.splits if_splits)
  with p show "k = [] \<or> children_complete tr (Children kd) (range_keys (Children kd)) = []"
    by (rule reconcile_keys_result_settled)
qed

text \<open>
  Claim C5. \<open>reconcilePending\<close> is idempotent: a second run right after a first one, at
  whatever later time, leaves the trackers of commits, files and requests (and the rest of
  the scanner) exactly as the first run left them. The second run finds no child to
  promote and so makes no update at all.
\<close>

theorem reconcilePending_idempotent:
  "reconcilePending clock' (reconcilePending clock s) = reconcilePending clock s"
proof -
  obtain pf where pf: "GetKeysDataForCode (TrackerFiles s) KeyCodePending = Inr pf"
    by (simp add: pending_lookup)
  let ?F = "reconcile_keys clock (TrackerRequests s) pf (range_keys pf) (TrackerFiles s)"
  let ?s1 = "s\<lparr>TrackerFiles := ?F\<rparr>"
  obtain pc where pc: "GetKeysDataForCode (TrackerCommits s) KeyCodePending = Inr pc"
    by (simp add: pending_lookup)
  let ?C = "reconcile_keys clock ?F pc (range_keys pc) (TrackerCommits s)"
  let ?s2 = "?s1\<lparr>TrackerCommits := ?C\<rparr>"
  have first: "reconcilePending clock s = ?s2"
    using pf pc by (simp add: reconcilePending_def Let_def)
  obtain pf' where pf': "GetKeysDataForCode ?F KeyCodePending = Inr pf'"
    by (simp add: pending_lookup)
  obtain pc' where pc': "GetKeysDataForCode ?C KeyCodePending = Inr pc'"
    by (simp add: pending_lookup)
  have files: "reconcile_keys clock' (TrackerRequests s) pf' (range_keys pf') ?F = ?F"
    using pf pf' by (rule reconcile_keys_idem)
  have commits: "reconcile_keys clock' ?F pc' (range_keys pc') ?C = ?C"
    using pc pc' by (rule reconcile_keys_idem)
  have "reconcilePending clock' ?s2 = ?s2"
    using pf' pc' by (simp add: reconcilePending_def Let_def files commits)
  with first show ?thesis by simp
qed

text \<open>
  The reconciler at work: on \<open>racing_scanner\<close> the first run sets the flag of \<open>r1\<close> in the
  file \<open>f\<close>, at the time of the run, and leaves \<open>r2\<close> false; the second run changes
  nothing.
\<close>

lemma reconcile_entry_children:
  assumes "Code kd \<noteq> KeyCodeComplete" "k \<noteq> []"
  shows "fmlookup (Children (reconcile_entry now tr k kd)) c
     = (if fmlookup (Children kd) c = Some False
           \<and> (\<exists>d. Get tr c = Some d \<and> Code d = KeyCodeComplete)
        then Some True else fmlookup (Children kd) c)"
proof (cases "children_complete tr (Children kd) (range_keys (Children kd)) = []")
  case True
  then have "c \<notin> set (children_complete tr (Children kd) (range_keys (Children kd)))"
    by simp
  then have "\<not> (fmlookup (Children kd) c = Some False
      \<and> (\<exists>d. Get tr c = Some d \<and> Code d = KeyCodeComplete))"
    by (auto simp: children_complete_set fmlookup_dom_iff)
  with True show ?thesis by (auto simp: reconcile_entry_def)
next
  case False
  with assms have "Children (reconcile_entry now tr k kd)
      = merge_children KeyCodeComplete
          (children_complete tr (Children kd) (range_keys (Children kd))) (Children kd)"
    by (simp add: reconcile_entry_def KeyData_update_def Let_def)
  then show ?thesis
    by (cases "fmlookup (Children kd) c")
      (auto simp: merge_children_complete_lookup children_complete_set fmlookup_dom_iff)
qed

theorem reconcilePending_idempotent_witness:
  "reconcilePending (\<lambda>k. 20) (reconcilePending (\<lambda>k. 9) racing_scanner)
     = reconcilePending (\<lambda>k. 9) racing_scanner
   \<and> map_option (\<lambda>d. fmlookup (Children d) ''r1'')
        (Get (TrackerFiles (reconcilePending (\<lambda>k. 9) racing_scanner)) ''f'') = Some (Some True)
   \<and> map_option (\<lambda>d. fmlookup (Children d) ''r2'')
        (Get (TrackerFiles (reconcilePending (\<lambda>k. 9) racing_scanner)) ''f'') = Some (Some False)
   \<and> map_option (\<lambda>d. fmlookup (Children d) ''r1'')
        (Get (TrackerFiles racing_scanner) ''f'') = Some (Some False)"
proof -
  let ?fd = "NewKeyData 1 KeyCodePending [] [''r1'', ''r2'']"
  let ?R = "TrackerRequests racing_scanner"
  have files: "TrackerFiles racing_scanner = pending_file_tracker"
    by (simp add: racing_scanner_def new_scanner_def)
  have f: "fmlookup (Keys pending_file_tracker) ''f'' = Some ?fd"
    by (simp add: pending_file_tracker_def Update_def NewKeyTracker_def)
  have fd: "Code ?fd = KeyCodePending" "fmlookup (Children ?fd) ''r1'' = Some False"
      "fmlookup (Children ?fd) ''r2'' = Some False"
    by (simp_all add: NewKeyData_def)
  have r1: "\<exists>d. Get ?R ''r1'' = Some d \<and> Code d = KeyCodeComplete"
    by (simp add: racing_scanner_def new_scanner_def Update_def NewKeyTracker_def Get_def
        NewKeyData_def)
  have r2: "\<not> (\<exists>d. Get ?R ''r2'' = Some d \<and> Code d = KeyCodeComplete)"
    by (simp add: racing_scanner_def new_scanner_def Update_def NewKeyTracker_def Get_def
        NewKeyData_def)
  obtain pf where pf: "GetKeysDataForCode pending_file_tracker KeyCodePending = Inr pf"
    by (simp add: pending_lookup)
  then have pff: "fmlookup pf ''f'' = Some ?fd"
    using f fd(1) by (auto simp: pending_lookup)
  have sub: "fmlookup (Keys pending_file_tracker) k = Some d"
    if "k \<in> set (range_keys pf)" "fmlookup pf k = Some d" for k d
    using that(2) pf by (auto simp: pending_lookup split: if_splits)
  have "fmlookup (Keys (reconcile_keys (\<lambda>k. 9) ?R pf (range_keys pf) pending_file_tracker)) ''f''
      = Some (reconcile_entry 9 ?R ''f'' ?fd)"
    using reconcile_keys_lookup [where ks = "range_keys pf" and pending = pf
        and kt = pending_file_tracker and clock = "\<lambda>k. 9" and tr = ?R and k = "''f''",
        OF range_keys_distinct sub] pff
    by (simp add: fmlookup_dom_iff)
  moreover have "TrackerFiles (reconcilePending (\<lambda>k. 9) racing_scanner)
      = reconcile_keys (\<lambda>k. 9) ?R pf (range_keys pf) pending_file_tracker"
    using pf files by (simp add: reconcilePending_def Let_def pending_lookup)
  ultimately have get: "Get (TrackerFiles (reconcilePending (\<lambda>k. 9) racing_scanner)) ''f''
      = Some (reconcile_entry 9 ?R ''f'' ?fd)"
    by (simp add: Get_def)
  have ne: "Code ?fd \<noteq> KeyCodeComplete" "''f'' \<noteq> []"
    by (simp_all add: fd(1))
  have c1: "fmlookup (Children (reconcile_entry 9 ?R ''f'' ?fd)) ''r1'' = Some True"
    using r1 fd(2) by (simp add: reconcile_entry_children [OF ne])
  have c2: "fmlookup (Children (reconcile_entry 9 ?R ''f'' ?fd)) ''r2'' = Some False"
    using r2 fd(3) by (simp add: reconcile_entry_children [OF ne])
  have before: "map_option (\<lambda>d. fmlookup (Children d) ''r1'')
      (Get (TrackerFiles racing_scanner) ''f'') = Some (Some False)"
    by (simp add: files Get_def f fd(2))
  from get c1 c2 before
    reconcilePending_idempotent [of "\<lambda>k. 20" "\<lambda>k. 9" racing_scanner]
  show ?thesis by simp
qed

end
